theory Spec2Isabelle
  imports Complex_Main "HOL-Library.Multiset"
begin

section \<open>Values and errors\<close>

text \<open>
  The columns of a prediction table hold floating-point numbers. A cell is a number or
  the not-a-number value, which is how a numeric column stores a missing entry. Numbers
  are idealised as exact rationals (reals for the distances, which take a square root).
\<close>

datatype 'a fl = Num 'a | NaN

text \<open>Python's \<open>==\<close> on floats: not-a-number equals nothing, itself included.\<close>

fun fl_eq :: "'a fl \<Rightarrow> 'a fl \<Rightarrow> bool" where
  "fl_eq (Num a) (Num b) = (a = b)"
| "fl_eq _ _ = False"

type_synonym cell = "rat fl"

datatype error =
    ValueError string
  | TypeError string
  | ZeroDivisionError
  | IndexError
  | KeyError string
  | NameError string
  | AttributeError string
  | SyntaxError

text \<open>Python's true division of two integers (here: two lengths or counts).\<close>

definition py_div :: "nat \<Rightarrow> nat \<Rightarrow> error + rat" where
  "py_div a b = (if b = 0 then Inl ZeroDivisionError else Inr (of_nat a / of_nat b))"

section \<open>Confusion counts and rates (examples/metrics.py)\<close>

record counts =
  TN :: nat
  TP :: nat
  FP :: nat
  FN :: nat

definition counts0 :: counts where
  "counts0 = \<lparr>TN = 0, TP = 0, FP = 0, FN = 0\<rparr>"

text \<open>
  The body of the loop of \<open>_compute_tpr_fpr\<close> for one index: \<open>t\<close> is \<open>y_true[i]\<close>,
  \<open>p\<close> is \<open>y_pred[i]\<close> and \<open>pos\<close> is \<open>float(positive_label)\<close>.
\<close>

definition count_step :: "cell \<Rightarrow> cell \<Rightarrow> cell \<Rightarrow> counts \<Rightarrow> counts" where
  "count_step t p pos c =
     (if fl_eq t pos then
        (if fl_eq t p then c\<lparr>TP := TP c + 1\<rparr> else c\<lparr>FN := FN c + 1\<rparr>)
      else
        (if fl_eq p pos then c\<lparr>FP := FP c + 1\<rparr> else c\<lparr>TN := TN c + 1\<rparr>))"

text \<open>
  The loop \<open>for i in range(len(y_true))\<close>: it walks \<open>y_true\<close> and reads \<open>y_pred\<close> at
  the same index, which raises IndexError when \<open>y_pred\<close> is the shorter one.
\<close>

fun count_loop :: "cell list \<Rightarrow> cell list \<Rightarrow> cell \<Rightarrow> counts \<Rightarrow> error + counts" where
  "count_loop [] ps pos c = Inr c"
| "count_loop (t # ts) [] pos c = Inl IndexError"
| "count_loop (t # ts) (p # ps) pos c = count_loop ts ps pos (count_step t p pos c)"

definition confusion_counts :: "cell list \<Rightarrow> cell list \<Rightarrow> cell \<Rightarrow> error + counts" where
  "confusion_counts y_true y_pred positive_label =
     count_loop y_true y_pred positive_label counts0"

text \<open>The guarded rates computed after the loop.\<close>

definition TPR_of :: "counts \<Rightarrow> rat" where
  "TPR_of c = (if TP c + FN c = 0 then 0 else of_nat (TP c) / of_nat (TP c + FN c))"

definition FPR_of :: "counts \<Rightarrow> rat" where
  "FPR_of c = (if FP c + TN c = 0 then 0 else of_nat (FP c) / of_nat (FP c + TN c))"

definition FNR_of :: "counts \<Rightarrow> rat" where
  "FNR_of c = (if TP c + FN c = 0 then 0 else of_nat (FN c) / of_nat (TP c + FN c))"

text \<open>\<open>_compute_tpr_fpr\<close> returns the pair (FPR, TPR).\<close>

definition compute_tpr_fpr :: "cell list \<Rightarrow> cell list \<Rightarrow> cell \<Rightarrow> error + (rat \<times> rat)" where
  "compute_tpr_fpr y_true y_pred positive_label =
     (case confusion_counts y_true y_pred positive_label of
        Inl e \<Rightarrow> Inl e
      | Inr c \<Rightarrow> Inr (FPR_of c, TPR_of c))"

text \<open>\<open>_compute_fpr_fnr\<close> returns the pair (FNR, FPR).\<close>

definition compute_fpr_fnr :: "cell list \<Rightarrow> cell list \<Rightarrow> cell \<Rightarrow> error + (rat \<times> rat)" where
  "compute_fpr_fnr y_true y_pred positive_label =
     (case confusion_counts y_true y_pred positive_label of
        Inl e \<Rightarrow> Inl e
      | Inr c \<Rightarrow> Inr (FNR_of c, FPR_of c))"

section \<open>Prediction tables and their queries\<close>

text \<open>
  A prediction table is a pandas DataFrame: its column names and its rows, each row with
  its index label and its cells by column name. A cell that a row does not give is
  not-a-number, as in a frame built from records. Index labels need not be unique.
\<close>

type_synonym row = "(string \<times> cell) list"

record dataframe =
  columns :: "string list"
  rows :: "(int \<times> row) list"

definition cell_of :: "row \<Rightarrow> string \<Rightarrow> cell" where
  "cell_of r c = (case map_of r c of Some v \<Rightarrow> v | None \<Rightarrow> NaN)"

definition df_len :: "dataframe \<Rightarrow> nat" where
  "df_len d = length (rows d)"

definition df_index :: "dataframe \<Rightarrow> int list" where
  "df_index d = map fst (rows d)"

text \<open>
  The query texts that the metrics build by string concatenation, kept as their parse
  tree: \<open>QEmpty\<close> is the empty text, \<open>Cmp k v\<close> is \<open>k==v\<close>, \<open>Conj a b\<close> is \<open>a&b\<close>
  and \<open>Neg a\<close> is \<open>~(a)\<close>.
\<close>

datatype qexpr = QEmpty | Cmp string cell | Conj qexpr qexpr | Neg qexpr

text \<open>\<open>"&".join(parts)\<close>: the empty text for no part.\<close>

fun join_amp :: "qexpr list \<Rightarrow> qexpr" where
  "join_amp [] = QEmpty"
| "join_amp [q] = q"
| "join_amp (q # qs) = Conj q (join_amp qs)"

text \<open>A group condition is a dict of column name to number, read in item order.\<close>

type_synonym condition = "(string \<times> rat) list"

definition condition_query :: "condition \<Rightarrow> qexpr" where
  "condition_query group_condition = join_amp (map (\<lambda>(k, v). Cmp k (Num v)) group_condition)"

fun has_empty :: "qexpr \<Rightarrow> bool" where
  "has_empty QEmpty = True"
| "has_empty (Cmp k v) = False"
| "has_empty (Conj a b) = (has_empty a \<or> has_empty b)"
| "has_empty (Neg a) = has_empty a"

text \<open>
  Name resolution of a query: every compared name must be a column, and the text of a
  not-a-number literal is the name \<open>nan\<close>, which is no column.
\<close>

fun resolves :: "string list \<Rightarrow> qexpr \<Rightarrow> bool" where
  "resolves cols QEmpty = True"
| "resolves cols (Cmp k v) = (k \<in> set cols \<and> v \<noteq> NaN)"
| "resolves cols (Conj a b) = (resolves cols a \<and> resolves cols b)"
| "resolves cols (Neg a) = resolves cols a"

text \<open>The truth value of a query on one row: elementwise \<open>==\<close>, \<open>&\<close> and \<open>~\<close>.\<close>

fun holds :: "row \<Rightarrow> qexpr \<Rightarrow> bool" where
  "holds r QEmpty = True"
| "holds r (Cmp k v) = fl_eq (cell_of r k) v"
| "holds r (Conj a b) = (holds r a \<and> holds r b)"
| "holds r (Neg a) = (\<not> holds r a)"

text \<open>
  \<open>DataFrame.query\<close>: the empty text is refused with ValueError, a text with an empty
  operand does not parse, an unknown name is a NameError; otherwise the rows on which
  the expression is true are kept, in order, with their index labels.
\<close>

definition df_query :: "dataframe \<Rightarrow> qexpr \<Rightarrow> error + dataframe" where
  "df_query d q =
     (if q = QEmpty then Inl (ValueError ''expr cannot be an empty string'')
      else if has_empty q then Inl SyntaxError
      else if \<not> resolves (columns d) q then Inl (NameError ''name is not defined'')
      else Inr (d\<lparr>rows := filter (\<lambda>(i, r). holds r q) (rows d)\<rparr>))"

text \<open>\<open>DataFrame.drop(labels)\<close>: every row whose index label is among the labels goes.\<close>

definition df_drop :: "dataframe \<Rightarrow> int list \<Rightarrow> dataframe" where
  "df_drop d labels = d\<lparr>rows := filter (\<lambda>(i, r). i \<notin> set labels) (rows d)\<rparr>"

text \<open>\<open>df[name].values.ravel()\<close>: the cells of one column, KeyError for an unknown name.\<close>

definition df_col :: "dataframe \<Rightarrow> string \<Rightarrow> error + cell list" where
  "df_col d name =
     (if name \<in> set (columns d) then Inr (map (\<lambda>(i, r). cell_of r name) (rows d))
      else Inl (KeyError name))"

text \<open>Sequencing of steps that may raise.\<close>

definition bind_err :: "error + 'a \<Rightarrow> ('a \<Rightarrow> error + 'b) \<Rightarrow> error + 'b" where
  "bind_err m f = (case m of Inl e \<Rightarrow> Inl e | Inr x \<Rightarrow> f x)"

section \<open>Group partition and fairness metrics (examples/metrics.py)\<close>

definition get_groups ::
  "dataframe \<Rightarrow> string \<Rightarrow> cell \<Rightarrow> condition
     \<Rightarrow> error + (dataframe \<times> dataframe \<times> dataframe \<times> dataframe)" where
  "get_groups data label_name positive_label group_condition =
     (let query = condition_query group_condition;
          label_query = Cmp label_name positive_label
      in bind_err (df_query data query) (\<lambda>unpriv_group.
         bind_err (df_query data (Conj query label_query)) (\<lambda>unpriv_group_pos.
         bind_err (df_query data (Neg query)) (\<lambda>priv_group.
         bind_err (df_query data (Conj (Neg query) label_query)) (\<lambda>priv_group_pos.
         Inr (unpriv_group, unpriv_group_pos, priv_group, priv_group_pos))))))"

definition compute_probs ::
  "dataframe \<Rightarrow> string \<Rightarrow> cell \<Rightarrow> condition \<Rightarrow> error + (rat \<times> rat)" where
  "compute_probs data_pred label_name positive_label group_condition =
     bind_err (get_groups data_pred label_name positive_label group_condition)
       (\<lambda>(unpriv_group, unpriv_group_pos, priv_group, priv_group_pos).
          bind_err (py_div (df_len unpriv_group_pos) (df_len unpriv_group)) (\<lambda>unpriv_group_prob.
          bind_err (py_div (df_len priv_group_pos) (df_len priv_group)) (\<lambda>priv_group_prob.
          Inr (unpriv_group_prob, priv_group_prob))))"

text \<open>The last expression of \<open>disparate_impact\<close>, on the two rates.\<close>

definition impact_ratio :: "rat \<Rightarrow> rat \<Rightarrow> rat" where
  "impact_ratio unpriv_group_prob priv_group_prob =
     (if unpriv_group_prob \<noteq> 0 \<and> priv_group_prob \<noteq> 0
      then min (unpriv_group_prob / priv_group_prob) (priv_group_prob / unpriv_group_prob)
      else 0)"

definition disparate_impact ::
  "dataframe \<Rightarrow> condition \<Rightarrow> string \<Rightarrow> cell \<Rightarrow> error + rat" where
  "disparate_impact data_pred group_condition label_name positive_label =
     bind_err (compute_probs data_pred label_name positive_label group_condition)
       (\<lambda>(unpriv_group_prob, priv_group_prob).
          Inr (impact_ratio unpriv_group_prob priv_group_prob))"

definition statistical_parity ::
  "dataframe \<Rightarrow> condition \<Rightarrow> string \<Rightarrow> cell \<Rightarrow> error + rat" where
  "statistical_parity data_pred group_condition label_name positive_label =
     (let query = condition_query group_condition;
          label_query = Cmp label_name positive_label
      in bind_err (df_query data_pred (Conj query label_query)) (\<lambda>unpriv_pos.
         bind_err (df_query data_pred query) (\<lambda>unpriv.
         bind_err (py_div (df_len unpriv_pos) (df_len unpriv)) (\<lambda>unpriv_group_prob.
         bind_err (df_query data_pred (Conj (Neg query) label_query)) (\<lambda>priv_pos.
         bind_err (df_query data_pred (Neg query)) (\<lambda>priv.
         bind_err (py_div (df_len priv_pos) (df_len priv)) (\<lambda>priv_group_prob.
         Inr (unpriv_group_prob - priv_group_prob))))))))"

text \<open>
  The first two statements of \<open>_compute_tpr_fpr_groups\<close>: the unprivileged rows by the
  query, the privileged rows by dropping the index labels of the unprivileged ones.
\<close>

definition tpr_fpr_partition :: "dataframe \<Rightarrow> condition \<Rightarrow> error + (dataframe \<times> dataframe)" where
  "tpr_fpr_partition data_pred group_condition =
     bind_err (df_query data_pred (condition_query group_condition)) (\<lambda>unpriv_group.
       Inr (unpriv_group, df_drop data_pred (df_index unpriv_group)))"

definition compute_tpr_fpr_groups ::
  "dataframe \<Rightarrow> string \<Rightarrow> condition \<Rightarrow> cell \<Rightarrow> string
     \<Rightarrow> error + (rat \<times> rat \<times> rat \<times> rat)" where
  "compute_tpr_fpr_groups data_pred label group_condition positive_label label_name =
     bind_err (tpr_fpr_partition data_pred group_condition) (\<lambda>(unpriv_group, priv_group).
     bind_err (df_col unpriv_group label_name) (\<lambda>y_true_unpriv.
     bind_err (df_col unpriv_group label) (\<lambda>y_pred_unpric.
     bind_err (df_col priv_group label_name) (\<lambda>y_true_priv.
     bind_err (df_col priv_group label) (\<lambda>y_pred_priv.
     bind_err (compute_tpr_fpr y_true_unpriv y_pred_unpric positive_label)
       (\<lambda>(fpr_unpriv, tpr_unpriv).
     bind_err (compute_tpr_fpr y_true_priv y_pred_priv positive_label)
       (\<lambda>(fpr_priv, tpr_priv).
     Inr (fpr_unpriv, tpr_unpriv, fpr_priv, tpr_priv))))))))"

text \<open>
  A positional call of \<open>_compute_tpr_fpr_groups\<close>. Its fifth parameter \<open>label_name\<close>
  has no default, so a call that passes four arguments raises TypeError before the body
  runs.
\<close>

definition call_compute_tpr_fpr_groups ::
  "dataframe \<Rightarrow> string \<Rightarrow> condition \<Rightarrow> cell \<Rightarrow> string option
     \<Rightarrow> error + (rat \<times> rat \<times> rat \<times> rat)" where
  "call_compute_tpr_fpr_groups data_pred label group_condition positive_label label_name =
     (case label_name of
        None \<Rightarrow> Inl (TypeError ''missing 1 required positional argument: label_name'')
      | Some n \<Rightarrow> compute_tpr_fpr_groups data_pred label group_condition positive_label n)"

definition average_odds_difference ::
  "dataframe \<Rightarrow> condition \<Rightarrow> string \<Rightarrow> cell \<Rightarrow> string \<Rightarrow> error + rat" where
  "average_odds_difference data_pred group_condition pred_label_name positive_label label_name =
     bind_err (call_compute_tpr_fpr_groups data_pred pred_label_name group_condition
                 positive_label (Some label_name))
       (\<lambda>(fpr_unpriv, tpr_unpriv, fpr_priv, tpr_priv).
          Inr (((tpr_priv - tpr_unpriv) + (fpr_priv - fpr_unpriv)) / 2))"

definition equalized_odds ::
  "dataframe \<Rightarrow> condition \<Rightarrow> string \<Rightarrow> cell \<Rightarrow> string \<Rightarrow> error + rat" where
  "equalized_odds data_pred group_condition pred_label_name positive_label label_name =
     bind_err (call_compute_tpr_fpr_groups data_pred pred_label_name group_condition
                 positive_label (Some label_name))
       (\<lambda>(fpr_unpriv, tpr_unpriv, fpr_priv, tpr_priv). Inr (tpr_unpriv - tpr_priv))"

text \<open>Both functions below call the helper with four arguments.\<close>

definition true_pos_diff :: "dataframe \<Rightarrow> condition \<Rightarrow> string \<Rightarrow> cell \<Rightarrow> error + rat" where
  "true_pos_diff data_pred group_condition label positive_label =
     bind_err (call_compute_tpr_fpr_groups data_pred label group_condition positive_label None)
       (\<lambda>(fpr_unpriv, tpr_unpriv, fpr_priv, tpr_priv). Inr (fpr_unpriv - fpr_priv))"

definition false_pos_diff :: "dataframe \<Rightarrow> condition \<Rightarrow> string \<Rightarrow> cell \<Rightarrow> error + rat" where
  "false_pos_diff data_pred group_condition label positive_label =
     bind_err (call_compute_tpr_fpr_groups data_pred label group_condition positive_label None)
       (\<lambda>(fpr_unpriv, tpr_unpriv, fpr_priv, tpr_priv). Inr (fpr_unpriv - fpr_priv))"

section \<open>Distances between true and predicted labels (examples/metrics.py)\<close>

fun fl_map :: "('a \<Rightarrow> 'b) \<Rightarrow> 'a fl \<Rightarrow> 'b fl" where
  "fl_map f (Num a) = Num (f a)"
| "fl_map f NaN = NaN"

fun fl_map2 :: "('a \<Rightarrow> 'b \<Rightarrow> 'c) \<Rightarrow> 'a fl \<Rightarrow> 'b fl \<Rightarrow> 'c fl" where
  "fl_map2 f (Num a) (Num b) = Num (f a b)"
| "fl_map2 f _ _ = NaN"

text \<open>Elementwise difference of two columns of one table.\<close>

definition np_sub :: "cell list \<Rightarrow> cell list \<Rightarrow> cell list" where
  "np_sub a b = map2 (fl_map2 (\<lambda>x y. x - y)) a b"

definition np_sum :: "('a::{zero,plus}) fl list \<Rightarrow> 'a fl" where
  "np_sum xs = foldr (fl_map2 (\<lambda>x y. x + y)) xs (Num 0)"

definition np_square :: "('a::times) fl list \<Rightarrow> 'a fl list" where
  "np_square xs = map (fl_map (\<lambda>v. v * v)) xs"

definition np_dot :: "('a::{zero,plus,times}) fl list \<Rightarrow> 'a fl list \<Rightarrow> 'a fl" where
  "np_dot xs ys = np_sum (map2 (fl_map2 (\<lambda>x y. x * y)) xs ys)"

definition to_float :: "cell \<Rightarrow> real fl" where
  "to_float c = fl_map of_rat c"

text \<open>
  \<open>np.linalg.norm\<close> of a vector with the default order: the vector is converted to
  floats and the result is the square root of its dot product with itself.
\<close>

definition linalg_norm :: "cell list \<Rightarrow> real fl" where
  "linalg_norm x = fl_map sqrt (np_dot (map to_float x) (map to_float x))"

text \<open>
  Division of a numpy float by \<open>len(df_pred)\<close>. For the empty table the norm is 0 and
  numpy gives not-a-number (with a warning, without raising).
\<close>

definition np_div_len :: "real fl \<Rightarrow> nat \<Rightarrow> real fl" where
  "np_div_len v n = (if n = 0 then NaN else fl_map (\<lambda>x. x / real n) v)"

definition euclidean_distance :: "dataframe \<Rightarrow> string \<Rightarrow> error + real fl" where
  "euclidean_distance df_pred label =
     bind_err (df_col df_pred ''y_true'') (\<lambda>y_true.
     bind_err (df_col df_pred label) (\<lambda>y_pred.
     Inr (np_div_len (linalg_norm (np_sub y_true y_pred)) (df_len df_pred))))"

definition mahalanobis_distance :: "dataframe \<Rightarrow> string \<Rightarrow> error + real fl" where
  "mahalanobis_distance df_pred label =
     bind_err (df_col df_pred ''y_true'') (\<lambda>y_true.
     bind_err (df_col df_pred label) (\<lambda>y_pred.
     Inr (np_div_len (fl_map sqrt (to_float (np_sum (np_square (np_sub y_true y_pred)))))
            (df_len df_pred))))"

section \<open>Merging columns (fairlearn/utils/_input_validation.py)\<close>

definition backslash :: char where
  "backslash = CHR 0x5C"

definition MERGE_COLUMN_SEPARATOR :: string where
  "MERGE_COLUMN_SEPARATOR = '',''"

text \<open>
  Python's \<open>s.replace(old, new)\<close>: the occurrences of \<open>old\<close> are found from the left
  and do not overlap; an empty \<open>old\<close> matches before every character and at the end.
\<close>

function str_replace :: "string \<Rightarrow> string \<Rightarrow> string \<Rightarrow> string" where
  "str_replace old new [] = (if old = [] then new else [])"
| "str_replace old new (c # cs) =
     (if old = [] then new @ concat (map (\<lambda>x. x # new) (c # cs))
      else if take (length old) (c # cs) = old
        then new @ str_replace old new (drop (length old) (c # cs))
      else c # str_replace old new cs)"
  by pat_completeness auto
termination
  by (relation "measure (\<lambda>(old, new, s). length s)") auto

text \<open>\<open>sep.join(parts)\<close>.\<close>

fun str_join :: "string \<Rightarrow> string list \<Rightarrow> string" where
  "str_join sep [] = []"
| "str_join sep [x] = x"
| "str_join sep (x # xs) = x @ sep @ str_join sep xs"

text \<open>The escaping of one name inside \<open>_join_names\<close>: backslash first, then separator.\<close>

definition escape_name :: "string \<Rightarrow> string" where
  "escape_name name =
     str_replace MERGE_COLUMN_SEPARATOR (backslash # MERGE_COLUMN_SEPARATOR)
       (str_replace [backslash] [backslash, backslash] name)"

definition join_names :: "string list \<Rightarrow> string" where
  "join_names names = str_join MERGE_COLUMN_SEPARATOR (map escape_name names)"

text \<open>An n-dimensional array: its shape and its cells in row-major order.\<close>

record 'c ndarray =
  shape :: "nat list"
  flat :: "'c list"

definition ndim :: "'c ndarray \<Rightarrow> nat" where
  "ndim a = length (shape a)"

definition size_of :: "'c ndarray \<Rightarrow> nat" where
  "size_of a = prod_list (shape a)"

text \<open>The first \<open>n\<close> rows of \<open>k\<close> cells each of a row-major cell list.\<close>

fun chunks :: "nat \<Rightarrow> nat \<Rightarrow> 'a list \<Rightarrow> 'a list list" where
  "chunks 0 k xs = []"
| "chunks (Suc n) k xs = take k xs # chunks n k (drop k xs)"

text \<open>The argument of \<open>_merge_columns\<close> is dynamically typed: an array or anything else.\<close>

datatype 'c pyobj = NdArray "'c ndarray" | OtherObj

text \<open>
  \<open>feature_columns.astype(str)\<close> for a two-dimensional array: the rows of stringified
  cells, where \<open>str_of\<close> is the stringification of one cell.
\<close>

definition str_rows :: "('c \<Rightarrow> string) \<Rightarrow> 'c ndarray \<Rightarrow> string list list" where
  "str_rows str_of a = chunks (shape a ! 0) (shape a ! 1) (map str_of (flat a))"

text \<open>
  \<open>_merge_columns\<close>. Iterating a one-dimensional array of strings gives strings, whose
  elements are their characters; the rows of an array of three or more dimensions are
  arrays of arrays, which have no \<open>replace\<close>.
\<close>

definition merge_columns :: "('c \<Rightarrow> string) \<Rightarrow> 'c pyobj \<Rightarrow> error + string list" where
  "merge_columns str_of feature_columns =
     (case feature_columns of
        OtherObj \<Rightarrow> Inl (ValueError ''Received argument instead of expected numpy.ndarray'')
      | NdArray a \<Rightarrow>
          if ndim a = 0 then Inl (TypeError ''iteration over a 0-d array'')
          else if ndim a = 1 then
            Inr (map (\<lambda>c. join_names (map (\<lambda>ch. [ch]) (str_of c))) (flat a))
          else if ndim a = 2 then Inr (map join_names (str_rows str_of a))
          else if shape a ! 0 = 0 \<or> shape a ! 1 = 0 then Inr (replicate (shape a ! 0) [])
          else Inl (AttributeError ''replace''))"

text \<open>
  Recovering the names from a merged key: split at the separators that no backslash
  escapes, then drop the escaping backslashes.
\<close>

fun split_cells :: "string \<Rightarrow> string list" where
  "split_cells [] = [[]]"
| "split_cells (c # cs) =
     (if c = backslash then
        (case cs of
           [] \<Rightarrow> [[c]]
         | d # ds \<Rightarrow> (case split_cells ds of
                        [] \<Rightarrow> [[c, d]]
                      | r # rs \<Rightarrow> (c # d # r) # rs))
      else if [c] = MERGE_COLUMN_SEPARATOR then [] # split_cells cs
      else (case split_cells cs of
              [] \<Rightarrow> [[c]]
            | r # rs \<Rightarrow> (c # r) # rs))"

fun unescape :: "string \<Rightarrow> string" where
  "unescape [] = []"
| "unescape (c # cs) =
     (if c = backslash then (case cs of [] \<Rightarrow> [c] | d # ds \<Rightarrow> d # unescape ds)
      else c # unescape cs)"

definition recover_names :: "string \<Rightarrow> string list" where
  "recover_names key = map unescape (split_cells key)"

section \<open>Properties of the confusion counts\<close>

lemma count_step_total:
  "TN (count_step t p pos c) + TP (count_step t p pos c)
     + FP (count_step t p pos c) + FN (count_step t p pos c)
   = Suc (TN c + TP c + FP c + FN c)"
  by (simp add: count_step_def)

lemma count_loop_total:
  "length ts = length ps \<Longrightarrow>
   \<exists>c'. count_loop ts ps pos c = Inr c'
       \<and> TN c' + TP c' + FP c' + FN c' = TN c + TP c + FP c + FN c + length ts"
proof (induction ts ps pos c rule: count_loop.induct)
  case (1 ps pos c)
  then show ?case by simp
next
  case (2 t ts pos c)
  then show ?case by simp
next
  case (3 t ts p ps pos c)
  then have "length ts = length ps" by simp
  from "3.IH" [OF this] obtain c' where
    c': "count_loop ts ps pos (count_step t p pos c) = Inr c'"
    and tot: "TN c' + TP c' + FP c' + FN c'
       = TN (count_step t p pos c) + TP (count_step t p pos c)
         + FP (count_step t p pos c) + FN (count_step t p pos c) + length ts"
    by blast
  from tot have "TN c' + TP c' + FP c' + FN c'
      = TN c + TP c + FP c + FN c + length (t # ts)"
    by (simp add: count_step_total)
  with c' show ?case by simp
qed

lemma ratio_unit:
  fixes a b :: nat
  shows "0 \<le> (of_nat a :: rat) / of_nat (a + b) \<and> (of_nat a :: rat) / of_nat (a + b) \<le> 1"
proof (cases "a + b = 0")
  case True
  then show ?thesis by simp
next
  case False
  then have pos: "(0::rat) < of_nat (a + b)" by (simp only: of_nat_0_less_iff)
  have le: "(of_nat a :: rat) \<le> of_nat (a + b)" by simp
  have "(0::rat) \<le> of_nat a" by simp
  with pos have "0 \<le> (of_nat a :: rat) / of_nat (a + b)" by (simp only: divide_nonneg_pos)
  moreover from pos le have "(of_nat a :: rat) / of_nat (a + b) \<le> 1"
    by (simp only: divide_le_eq_1_pos)
  ultimately show ?thesis by blast
qed

lemma TPR_unit: "0 \<le> TPR_of c \<and> TPR_of c \<le> 1"
  using ratio_unit [of "TP c" "FN c"] by (simp add: TPR_of_def)

lemma FPR_unit: "0 \<le> FPR_of c \<and> FPR_of c \<le> 1"
  using ratio_unit [of "FP c" "TN c"] by (simp add: FPR_of_def)

lemma FNR_unit: "0 \<le> FNR_of c \<and> FNR_of c \<le> 1"
  using ratio_unit [of "FN c" "TP c"] by (simp add: FNR_of_def add.commute)

text \<open>
  Claim C1. For label and prediction sequences of equal length and any positive label,
  the loop ends with four counts that add up to the length of the sequences; both rate
  functions return; every returned rate lies between 0 and 1; and a rate whose
  denominator is 0 is exactly 0.
\<close>

theorem confusion_rate_consistency:
  assumes "length y_true = length y_pred"
  shows "\<exists>c. confusion_counts y_true y_pred pos = Inr c
           \<and> TP c + FP c + TN c + FN c = length y_true
           \<and> compute_tpr_fpr y_true y_pred pos = Inr (FPR_of c, TPR_of c)
           \<and> compute_fpr_fnr y_true y_pred pos = Inr (FNR_of c, FPR_of c)
           \<and> 0 \<le> TPR_of c \<and> TPR_of c \<le> 1
           \<and> 0 \<le> FPR_of c \<and> FPR_of c \<le> 1
           \<and> 0 \<le> FNR_of c \<and> FNR_of c \<le> 1
           \<and> (TP c + FN c = 0 \<longrightarrow> TPR_of c = 0)
           \<and> (FP c + TN c = 0 \<longrightarrow> FPR_of c = 0)
           \<and> (TP c + FN c = 0 \<longrightarrow> FNR_of c = 0)"
proof -
  from count_loop_total [OF assms, of pos counts0] obtain c where
    c: "count_loop y_true y_pred pos counts0 = Inr c"
    and tot: "TN c + TP c + FP c + FN c = length y_true"
    by (auto simp: counts0_def)
  have run: "confusion_counts y_true y_pred pos = Inr c"
    using c by (simp add: confusion_counts_def)
  have sum: "TP c + FP c + TN c + FN c = length y_true"
    using tot by simp
  have r1: "compute_tpr_fpr y_true y_pred pos = Inr (FPR_of c, TPR_of c)"
    using run by (simp add: compute_tpr_fpr_def)
  have r2: "compute_fpr_fnr y_true y_pred pos = Inr (FNR_of c, FPR_of c)"
    using run by (simp add: compute_fpr_fnr_def)
  have z1: "TP c + FN c = 0 \<longrightarrow> TPR_of c = 0" by (simp add: TPR_of_def)
  have z2: "FP c + TN c = 0 \<longrightarrow> FPR_of c = 0" by (simp add: FPR_of_def)
  have z3: "TP c + FN c = 0 \<longrightarrow> FNR_of c = 0" by (simp add: FNR_of_def)
  have t1: "0 \<le> TPR_of c" and t2: "TPR_of c \<le> 1"
    using TPR_unit [of c] by simp_all
  have f1: "0 \<le> FPR_of c" and f2: "FPR_of c \<le> 1"
    using FPR_unit [of c] by simp_all
  have n1: "0 \<le> FNR_of c" and n2: "FNR_of c \<le> 1"
    using FNR_unit [of c] by simp_all
  show ?thesis
    by (rule exI [of _ c]) (intro conjI run sum r1 r2 t1 t2 f1 f2 n1 n2 z1 z2 z3)
qed

theorem confusion_rate_consistency_witness:
  "length [Num 1, Num 0, NaN :: cell] = length [Num 1, Num 1, Num 0 :: cell]
   \<and> (\<exists>c. confusion_counts [Num 1, Num 0, NaN] [Num 1, Num 1, Num 0] (Num 1) = Inr c
          \<and> TP c + FP c + TN c + FN c = 3)"
proof -
  have h: "length [Num 1, Num 0, NaN :: cell] = length [Num 1, Num 1, Num 0 :: cell]"
    by simp
  from confusion_rate_consistency [OF h, of "Num 1"] show ?thesis
    by auto
qed

text \<open>
  Claim C5. On the ten-row scenario the loop counts TP=2, FN=3, FP=2, TN=3 and the
  function returns FPR = 2/5 and TPR = 2/5.
\<close>

theorem concrete_scenario_rates:
  "confusion_counts
     [Num 1, Num 1, Num 1, Num 1, Num 1, Num 0, Num 0, Num 0, Num 0, Num 0]
     [Num 1, Num 1, Num 0, Num 0, Num 0, Num 0, Num 0, Num 1, Num 1, Num 0]
     (Num 1) = Inr \<lparr>TN = 3, TP = 2, FP = 2, FN = 3\<rparr>
   \<and> compute_tpr_fpr
     [Num 1, Num 1, Num 1, Num 1, Num 1, Num 0, Num 0, Num 0, Num 0, Num 0]
     [Num 1, Num 1, Num 0, Num 0, Num 0, Num 0, Num 0, Num 1, Num 1, Num 0]
     (Num 1) = Inr (2 / 5, 2 / 5)"
  by (simp add: compute_tpr_fpr_def confusion_counts_def counts0_def count_step_def
      FPR_of_def TPR_of_def)

end
